theory Spec2Isabelle
  imports Main
begin

section \<open>certbot-he-hook: a manual DNS-01 hook for Hurricane Electric\<close>

text \<open>
  The program is one Python file, \<^verbatim>\<open>certbot-he-hook.py\<close>. It reads its parameters
  from the process environment, talks to the provider's HTML console through one HTTP
  session, and reports through standard output, the error stream and its exit code.

  Everything the code does beyond computing a value is explicit here:
  \<^item> the environment is a map from variable names to values;
  \<^item> the provider is a function from the history of requests of the session (the
    request being answered last) to the parsed response page, so that any deterministic
    provider, cookies included, is an instance;
  \<^item> the session is the list of requests it has sent, in order;
  \<^item> every \<^verbatim>\<open>raise\<close> is the left injection of a sum, and an exception that leaves
    \<^verbatim>\<open>main\<close> is the outcome \<open>Unhandled\<close>;
  \<^item> what was printed and how long the process slept are fields of the result of a run.

  Transport failures of the HTTP library are outside the model: every request is answered.
\<close>

subsection \<open>Exceptions and Python values\<close>

datatype exn =
    KeyError string
  | ValueError string
  | RuntimeError string
  | TypeError string

text \<open>\<^verbatim>\<open>except ValueError\<close> and \<^verbatim>\<open>except RuntimeError\<close> select by class.\<close>

fun is_ValueError :: "exn \<Rightarrow> bool" where
  "is_ValueError (ValueError m) = True"
| "is_ValueError e = False"

fun is_RuntimeError :: "exn \<Rightarrow> bool" where
  "is_RuntimeError (RuntimeError m) = True"
| "is_RuntimeError e = False"

fun is_KeyError :: "exn \<Rightarrow> bool" where
  "is_KeyError (KeyError k) = True"
| "is_KeyError e = False"

text \<open>
  \<^verbatim>\<open>str(error)\<close>: the message of an exception built from one string; for a
  \<^verbatim>\<open>KeyError\<close> it is the \<^verbatim>\<open>repr\<close> of the key, the name between single quotes
  (the keys looked up by this program contain no quote or backslash).
\<close>

fun str_exn :: "exn \<Rightarrow> string" where
  "str_exn (KeyError k) = [CHR 0x27] @ k @ [CHR 0x27]"
| "str_exn (ValueError m) = m"
| "str_exn (RuntimeError m) = m"
| "str_exn (TypeError m) = m"

text \<open>
  The propagation delay is either the integer literal \<^verbatim>\<open>30\<close> or the text of an
  environment variable: two different Python types.
\<close>

datatype pyval = PyInt int | PyStr string

text \<open>
  \<^verbatim>\<open>time.sleep\<close> takes a number. It raises \<^verbatim>\<open>TypeError\<close> on a \<^verbatim>\<open>str\<close> and
  \<^verbatim>\<open>ValueError\<close> on a negative number; otherwise the process blocks for that long, and
  the model returns the duration.
\<close>

fun sleep :: "pyval \<Rightarrow> exn + int" where
  "sleep (PyInt n) =
     (if n < 0 then Inl (ValueError ''sleep length must be non-negative'') else Inr n)"
| "sleep (PyStr s) = Inl (TypeError ''an integer is required (got type str)'')"

subsection \<open>The environment\<close>

type_synonym environ = "string \<rightharpoonup> string"

definition environ_get :: "environ \<Rightarrow> string \<Rightarrow> exn + string" where
  "environ_get env k = (case env k of None \<Rightarrow> Inl (KeyError k) | Some v \<Rightarrow> Inr v)"

subsection \<open>Parsed pages\<close>

text \<open>
  \<^verbatim>\<open>BeautifulSoup(response.content, "html.parser")\<close> is a tree of tags and strings. A
  tag has a name, a dictionary of attributes (an association list read with \<open>map_of\<close>)
  and children. A page is the list of its top-level nodes. The tree holds tags and text
  only: comments and declarations, which no search of this program looks at and which
  \<^verbatim>\<open>get_text\<close> leaves out, are not represented.
\<close>

datatype node =
    Tag string "(string \<times> string) list" "node list"
  | NavigableString string

type_synonym soup = "node list"

text \<open>The descendants of a node, in document order: what \<^verbatim>\<open>find\<close> and \<^verbatim>\<open>findAll\<close> walk.\<close>

fun descendants :: "node \<Rightarrow> node list"
  and descendants_list :: "node list \<Rightarrow> node list" where
  "descendants (Tag nm attrs cs) = descendants_list cs"
| "descendants (NavigableString s) = []"
| "descendants_list [] = []"
| "descendants_list (c # cs) = c # descendants c @ descendants_list cs"

text \<open>
  The value of \<^verbatim>\<open>class\<close> is a list of names separated by whitespace; every other
  attribute read by this program is one string.
\<close>

definition is_space :: "char \<Rightarrow> bool" where
  "is_space c = (c = CHR '' '' \<or> c = CHR 0x09 \<or> c = CHR 0x0A \<or> c = CHR 0x0B
                 \<or> c = CHR 0x0C \<or> c = CHR 0x0D)"

fun class_tokens_from :: "string \<Rightarrow> string \<Rightarrow> string list" where
  "class_tokens_from cur [] = (if cur = [] then [] else [cur])"
| "class_tokens_from cur (c # cs) =
     (if is_space c
      then (if cur = [] then class_tokens_from [] cs else cur # class_tokens_from [] cs)
      else class_tokens_from (cur @ [c]) cs)"

definition class_tokens :: "string \<Rightarrow> string list" where
  "class_tokens v = class_tokens_from [] v"

fun join_space :: "string list \<Rightarrow> string" where
  "join_space [] = []"
| "join_space [t] = t"
| "join_space (t # ts) = t @ '' '' @ join_space ts"

text \<open>
  One entry \<^verbatim>\<open>{key: match_against}\<close> of the attribute filter against a tag's value for
  that key: a missing attribute matches only an empty filter string; \<^verbatim>\<open>class\<close>
  matches when one of its names, or all of them joined by spaces, equals the filter;
  any other attribute matches when it equals the filter.
\<close>

definition attr_matches :: "string \<Rightarrow> string option \<Rightarrow> string \<Rightarrow> bool" where
  "attr_matches key markup match_against =
     (case markup of
        None \<Rightarrow> match_against = []
      | Some v \<Rightarrow>
          if key = ''class''
          then match_against \<in> set (class_tokens v)
               \<or> join_space (class_tokens v) = match_against
          else v = match_against)"

fun tag_matches :: "string \<Rightarrow> (string \<times> string) list \<Rightarrow> node \<Rightarrow> bool" where
  "tag_matches name attrs (Tag nm have cs) =
     (nm = name \<and> list_all (\<lambda>(key, match_against). attr_matches key (map_of have key) match_against) attrs)"
| "tag_matches name attrs (NavigableString s) = False"

text \<open>\<^verbatim>\<open>html.findAll(name, attrs)\<close> on a page, and \<^verbatim>\<open>tag.findAll(name, attrs)\<close> on a tag.\<close>

definition findAll :: "soup \<Rightarrow> string \<Rightarrow> (string \<times> string) list \<Rightarrow> node list" where
  "findAll html name attrs = filter (tag_matches name attrs) (descendants_list html)"

definition tag_findAll :: "node \<Rightarrow> string \<Rightarrow> (string \<times> string) list \<Rightarrow> node list" where
  "tag_findAll tag name attrs = filter (tag_matches name attrs) (descendants tag)"

text \<open>\<^verbatim>\<open>html.find(name, attrs)\<close>: the first result of \<^verbatim>\<open>findAll\<close>, or \<^verbatim>\<open>None\<close>.\<close>

definition find_tag :: "soup \<Rightarrow> string \<Rightarrow> (string \<times> string) list \<Rightarrow> node option" where
  "find_tag html name attrs =
     (case findAll html name attrs of [] \<Rightarrow> None | t # ts \<Rightarrow> Some t)"

text \<open>\<^verbatim>\<open>tag.get_text()\<close>: the strings below the tag, concatenated in document order.\<close>

fun string_of :: "node \<Rightarrow> string" where
  "string_of (NavigableString s) = s"
| "string_of (Tag nm attrs cs) = []"

definition get_text :: "node \<Rightarrow> string" where
  "get_text tag = concat (map string_of (descendants tag))"

text \<open>\<^verbatim>\<open>tag[key]\<close>: the attribute, or \<^verbatim>\<open>KeyError\<close> when the tag does not carry it.\<close>

fun getitem :: "node \<Rightarrow> string \<Rightarrow> exn + string" where
  "getitem (Tag nm attrs cs) key =
     (case map_of attrs key of None \<Rightarrow> Inl (KeyError key) | Some v \<Rightarrow> Inr v)"
| "getitem (NavigableString s) key = Inl (TypeError ''string indices must be integers'')"

subsection \<open>The session and the provider\<close>

datatype request =
    GET string
  | POST string "(string \<times> string) list"

type_synonym session = "request list"

type_synonym server = "request list \<Rightarrow> soup"

definition session_get :: "server \<Rightarrow> session \<Rightarrow> string \<Rightarrow> soup \<times> session" where
  "session_get srv session url = (srv (session @ [GET url]), session @ [GET url])"

definition session_post ::
  "server \<Rightarrow> session \<Rightarrow> string \<Rightarrow> (string \<times> string) list \<Rightarrow> soup \<times> session" where
  "session_post srv session url data =
     (srv (session @ [POST url data]), session @ [POST url data])"

subsection \<open>login\<close>

text \<open>
  Every operation returns its result (or the exception it raised) together with the
  session after the requests it sent.
\<close>

definition login :: "server \<Rightarrow> string \<Rightarrow> string \<Rightarrow> (exn + session) \<times> session" where
  "login srv username password =
     (let (landing, s1) = session_get srv [] ''https://dns.he.net/'';
          (login_response, s2) =
             session_post srv s1 ''https://dns.he.net''
               [(''email'', username), (''pass'', password)]
      in if find_tag login_response ''div'' [(''id'', ''dns_err'')] \<noteq> None
         then (Inl (ValueError ''ERROR: HE login failed, check HE_USER and HE_PASS''), s2)
         else (Inr s2, s2))"

subsection \<open>get_zone_id\<close>

definition get_zone_id :: "server \<Rightarrow> session \<Rightarrow> string \<Rightarrow> (exn + string) \<times> session" where
  "get_zone_id srv session zone =
     (let (zones_response, s1) = session_get srv session ''https://dns.he.net''
      in case find_tag zones_response ''img'' [(''name'', zone), (''alt'', ''delete'')] of
           None \<Rightarrow>
             (Inl (ValueError ''ERROR: Domain not found in account, check CERTBOT_DOMAIN''), s1)
         | Some zone_id \<Rightarrow> (getitem zone_id ''value'', s1))"

subsection \<open>delete_validation\<close>

definition delete_validation ::
  "server \<Rightarrow> session \<Rightarrow> string \<Rightarrow> string \<Rightarrow> (exn + unit) \<times> session" where
  "delete_validation srv session zone record_id =
     (case get_zone_id srv session zone of
        (Inl error, s1) \<Rightarrow> (Inl error, s1)
      | (Inr zone_id, s1) \<Rightarrow>
          (let (delete_response, s2) =
                 session_post srv s1 ''https://dns.he.net/index.cgi''
                   [(''menu'', ''edit_zone''),
                    (''hosted_dns_zoneid'', zone_id),
                    (''hosted_dns_recordid'', record_id),
                    (''hosted_dns_editzone'', ''1''),
                    (''hosted_dns_delrecord'', ''1''),
                    (''hosted_dns_delconfirm'', ''delete'')]
           in if find_tag delete_response ''div'' [(''id'', ''dns_status'')] = None
              then (Inl (RuntimeError ''ERROR: Unable to delete validation record, either it does not exist, or it needs to be manually removed''), s2)
              else (Inr (), s2)))"

subsection \<open>set_validation\<close>

text \<open>
  The inner loop of \<^verbatim>\<open>set_validation\<close>: the value of \<^verbatim>\<open>found\<close> after walking the
  cells of one row, leaving at the first cell whose text is the record name.
\<close>

fun found_in :: "string \<Rightarrow> node list \<Rightarrow> bool" where
  "found_in record_name [] = False"
| "found_in record_name (value # values) =
     (if get_text value = record_name then True else found_in record_name values)"

text \<open>The outer loop, and the \<^verbatim>\<open>raise\<close> after it.\<close>

fun scan_records :: "string \<Rightarrow> node list \<Rightarrow> exn + string" where
  "scan_records record_name [] =
     Inl (RuntimeError ''ERROR: Record not created or not found in HE, check that it was created'')"
| "scan_records record_name (record # records) =
     (if found_in record_name (tag_findAll record ''td'' [(''class'', ''dns_view'')])
      then getitem record ''id''
      else scan_records record_name records)"

definition set_validation ::
  "server \<Rightarrow> session \<Rightarrow> string \<Rightarrow> string \<Rightarrow> string \<Rightarrow> (exn + string) \<times> session" where
  "set_validation srv session zone certbot_domain certbot_validation =
     (case get_zone_id srv session zone of
        (Inl error, s1) \<Rightarrow> (Inl error, s1)
      | (Inr zone_id, s1) \<Rightarrow>
          (let record_name = ''_acme-challenge.'' @ certbot_domain;
               (create_response, s2) =
                 session_post srv s1 ''https://dns.he.net/index.cgi''
                   [(''account'', ''''),
                    (''menu'', ''edit_zone''),
                    (''Type'', ''TXT''),
                    (''hosted_dns_zoneid'', zone_id),
                    (''hosted_dns_recordid'', ''''),
                    (''hosted_dns_editzone'', ''1''),
                    (''Priority'', ''''),
                    (''Name'', record_name),
                    (''Content'', certbot_validation),
                    (''TTL'', ''300''),
                    (''hosted_dns_editrecord'', ''Submit'')];
               records = findAll create_response ''tr'' [(''class'', ''dns_tr'')]
           in (scan_records record_name records, s2)))"

subsection \<open>main\<close>

datatype outcome = Exit int | Unhandled exn

record run =
  outcome :: outcome
  stdout :: "string list"
  stderr :: "string list"
  slept :: "int list"
  requests :: "request list"

definition finish ::
  "outcome \<Rightarrow> string list \<Rightarrow> string list \<Rightarrow> int list \<Rightarrow> request list \<Rightarrow> run" where
  "finish oc out err sl reqs =
     \<lparr>outcome = oc, stdout = out, stderr = err, slept = sl, requests = reqs\<rparr>"

text \<open>
  The handler of the first \<^verbatim>\<open>try\<close> block: \<^verbatim>\<open>except KeyError as error\<close>. No request has
  been sent when it runs.
\<close>

definition missing :: "exn \<Rightarrow> run" where
  "missing error =
     (if is_KeyError error
      then finish (Exit 1) []
             [''ERROR: Required environment variable '' @ str_exn error @ '' is unset''] [] []
      else finish (Unhandled error) [] [] [] [])"

definition main :: "server \<Rightarrow> environ \<Rightarrow> run" where
  "main srv env =
     (case environ_get env ''HE_USERNAME'' of Inl error \<Rightarrow> missing error | Inr he_username \<Rightarrow>
     (case environ_get env ''HE_PASSWORD'' of Inl error \<Rightarrow> missing error | Inr he_password \<Rightarrow>
     (case environ_get env ''HE_ZONE'' of Inl error \<Rightarrow> missing error | Inr he_zone \<Rightarrow>
     (case environ_get env ''CERTBOT_DOMAIN'' of Inl error \<Rightarrow> missing error | Inr certbot_domain \<Rightarrow>
     (case environ_get env ''CERTBOT_VALIDATION'' of Inl error \<Rightarrow> missing error | Inr certbot_validation \<Rightarrow>
     (case login srv he_username he_password of
        (Inl error, s) \<Rightarrow>
          (if is_ValueError error
           then finish (Exit 1) [] [str_exn error] [] s
           else finish (Unhandled error) [] [] [] s)
      | (Inr session, s) \<Rightarrow>
          (case environ_get env ''CERTBOT_AUTH_OUTPUT'' of
             Inr certbot_auth_output \<Rightarrow>
               (case delete_validation srv session he_zone certbot_auth_output of
                  (Inl error, s') \<Rightarrow>
                    (if is_RuntimeError error
                     then finish (Exit 1) [] [str_exn error] [] s'
                     else finish (Unhandled error) [] [] [] s')
                | (Inr u, s') \<Rightarrow> finish (Exit 0) [] [] [] s')
           | Inl e \<Rightarrow>
               (let he_propagation_seconds =
                      (case environ_get env ''HE_PROPAGATION_SECONDS'' of
                         Inr v \<Rightarrow> PyStr v
                       | Inl e' \<Rightarrow> PyInt 30)
                in (case set_validation srv session he_zone certbot_domain certbot_validation of
                      (Inl error, s') \<Rightarrow>
                        (if is_ValueError error \<or> is_RuntimeError error
                         then finish (Exit 1) [] [str_exn error] [] s'
                         else finish (Unhandled error) [] [] [] s')
                    | (Inr record_id, s') \<Rightarrow>
                        (case sleep he_propagation_seconds of
                           Inl error \<Rightarrow> finish (Unhandled error) [record_id] [] [] s'
                         | Inr d \<Rightarrow> finish (Exit 0) [record_id] [] [d] s'))))))))))"

subsection \<open>The properties' vocabulary\<close>

text \<open>The variables that \<^verbatim>\<open>main\<close> reads before anything else, in the order it reads them.\<close>

definition required_vars :: "string list" where
  "required_vars =
     [''HE_USERNAME'', ''HE_PASSWORD'', ''HE_ZONE'', ''CERTBOT_DOMAIN'', ''CERTBOT_VALIDATION'']"

text \<open>The five required variables are set, with these values.\<close>

definition has_required ::
  "environ \<Rightarrow> string \<Rightarrow> string \<Rightarrow> string \<Rightarrow> string \<Rightarrow> string \<Rightarrow> bool" where
  "has_required env he_username he_password he_zone certbot_domain certbot_validation =
     (env ''HE_USERNAME'' = Some he_username \<and> env ''HE_PASSWORD'' = Some he_password
      \<and> env ''HE_ZONE'' = Some he_zone \<and> env ''CERTBOT_DOMAIN'' = Some certbot_domain
      \<and> env ''CERTBOT_VALIDATION'' = Some certbot_validation)"

text \<open>
  An element named \<open>name\<close> whose attribute \<open>key\<close> has the value \<open>v\<close> occurs in the page:
  the login error marker is \<open>has_element page ''div'' ''id'' ''dns_err''\<close>, the status
  marker of a deletion is \<open>has_element page ''div'' ''id'' ''dns_status''\<close>.
\<close>

fun attr :: "node \<Rightarrow> string \<Rightarrow> string option" where
  "attr (Tag nm attrs cs) key = map_of attrs key"
| "attr (NavigableString s) key = None"

fun tag_name :: "node \<Rightarrow> string option" where
  "tag_name (Tag nm attrs cs) = Some nm"
| "tag_name (NavigableString s) = None"

definition has_element :: "soup \<Rightarrow> string \<Rightarrow> string \<Rightarrow> string \<Rightarrow> bool" where
  "has_element html name key v =
     list_ex (\<lambda>n. tag_name n = Some name \<and> attr n key = Some v) (descendants_list html)"

text \<open>
  A row of the record table contains a cell, flagged as a viewable field, whose text is
  exactly the record name.
\<close>

definition row_matches :: "string \<Rightarrow> node \<Rightarrow> bool" where
  "row_matches record_name row =
     list_ex (\<lambda>cell. get_text cell = record_name)
       (tag_findAll row ''td'' [(''class'', ''dns_view'')])"

text \<open>The four requests of a run, as the code writes them.\<close>

definition landing_GET :: request where
  "landing_GET = GET ''https://dns.he.net/''"

definition login_POST :: "string \<Rightarrow> string \<Rightarrow> request" where
  "login_POST username password =
     POST ''https://dns.he.net'' [(''email'', username), (''pass'', password)]"

definition zones_GET :: request where
  "zones_GET = GET ''https://dns.he.net''"

definition delete_POST :: "string \<Rightarrow> string \<Rightarrow> request" where
  "delete_POST zone_id record_id =
     POST ''https://dns.he.net/index.cgi''
       [(''menu'', ''edit_zone''),
        (''hosted_dns_zoneid'', zone_id),
        (''hosted_dns_recordid'', record_id),
        (''hosted_dns_editzone'', ''1''),
        (''hosted_dns_delrecord'', ''1''),
        (''hosted_dns_delconfirm'', ''delete'')]"

definition create_POST :: "string \<Rightarrow> string \<Rightarrow> string \<Rightarrow> request" where
  "create_POST zone_id certbot_domain certbot_validation =
     POST ''https://dns.he.net/index.cgi''
       [(''account'', ''''),
        (''menu'', ''edit_zone''),
        (''Type'', ''TXT''),
        (''hosted_dns_zoneid'', zone_id),
        (''hosted_dns_recordid'', ''''),
        (''hosted_dns_editzone'', ''1''),
        (''Priority'', ''''),
        (''Name'', ''_acme-challenge.'' @ certbot_domain),
        (''Content'', certbot_validation),
        (''TTL'', ''300''),
        (''hosted_dns_editrecord'', ''Submit'')]"

subsection \<open>A scripted provider\<close>

text \<open>
  Concrete pages and a provider that answers the login POST, the management-page GET and
  the mutation POST with three given pages, for running the program on concrete inputs.
\<close>

definition page_welcome :: soup where
  "page_welcome =
     [Tag ''html'' [] [Tag ''body'' [] [Tag ''div'' [(''id'', ''content'')]
        [NavigableString ''Free DNS'']]]]"

definition page_login_error :: soup where
  "page_login_error =
     [Tag ''html'' [] [Tag ''body'' [] [Tag ''div'' [(''id'', ''dns_err'')]
        [NavigableString ''Incorrect'']]]]"

definition page_zones :: soup where
  "page_zones =
     [Tag ''html'' [] [Tag ''body'' [] [Tag ''table'' [] [Tag ''tr'' [] [
        Tag ''td'' [] [NavigableString ''example.com''],
        Tag ''td'' [] [Tag ''img''
          [(''alt'', ''delete''), (''name'', ''example.com''), (''value'', ''12345'')] []]]]]]]"

definition page_zones_no_value :: soup where
  "page_zones_no_value =
     [Tag ''html'' [] [Tag ''body'' [] [Tag ''table'' [] [Tag ''tr'' [] [
        Tag ''td'' [] [Tag ''img''
          [(''alt'', ''delete''), (''name'', ''example.com'')] []]]]]]]"

definition page_no_zones :: soup where
  "page_no_zones = [Tag ''html'' [] [Tag ''body'' [] [Tag ''table'' [] []]]]"

definition page_records :: soup where
  "page_records =
     [Tag ''html'' [] [Tag ''body'' [] [Tag ''table'' [] [
        Tag ''tr'' [(''class'', ''dns_tr''), (''id'', ''111'')] [
          Tag ''td'' [(''class'', ''dns_view'')] [NavigableString ''www.example.com''],
          Tag ''td'' [(''class'', ''dns_view'')] [NavigableString ''A'']],
        Tag ''tr'' [(''class'', ''dns_tr''), (''id'', ''98765'')] [
          Tag ''td'' [(''class'', ''dns_view'')] [NavigableString ''_acme-challenge.example.com''],
          Tag ''td'' [(''class'', ''dns_view'')] [NavigableString ''TXT'']],
        Tag ''tr'' [(''class'', ''dns_tr''), (''id'', ''98766'')] [
          Tag ''td'' [(''class'', ''dns_view'')] [NavigableString ''_acme-challenge.example.com'']]]]]]"

definition page_records_no_id :: soup where
  "page_records_no_id =
     [Tag ''html'' [] [Tag ''body'' [] [Tag ''table'' [] [
        Tag ''tr'' [(''class'', ''dns_tr'')] [
          Tag ''td'' [(''class'', ''dns_view'')] [NavigableString ''_acme-challenge.example.com'']],
        Tag ''tr'' [(''class'', ''dns_tr''), (''id'', ''98766'')] [
          Tag ''td'' [(''class'', ''dns_view'')] [NavigableString ''_acme-challenge.example.com'']]]]]]"

definition page_records_unchanged :: soup where
  "page_records_unchanged =
     [Tag ''html'' [] [Tag ''body'' [] [Tag ''table'' [] [
        Tag ''tr'' [(''class'', ''dns_tr''), (''id'', ''111'')] [
          Tag ''td'' [(''class'', ''dns_view'')] [NavigableString ''www.example.com'']]]]]]"

definition page_deleted :: soup where
  "page_deleted =
     [Tag ''html'' [] [Tag ''body'' [] [Tag ''div'' [(''id'', ''dns_status'')]
        [NavigableString ''Successfully removed record.'']]]]"

definition page_not_deleted :: soup where
  "page_not_deleted = [Tag ''html'' [] [Tag ''body'' [] []]]"

fun answer :: "soup \<Rightarrow> soup \<Rightarrow> soup \<Rightarrow> request \<Rightarrow> soup" where
  "answer login_page zones_page mutation_page (GET url) =
     (if url = ''https://dns.he.net'' then zones_page else page_welcome)"
| "answer login_page zones_page mutation_page (POST url data) =
     (if url = ''https://dns.he.net'' then login_page else mutation_page)"

definition provider :: "soup \<Rightarrow> soup \<Rightarrow> soup \<Rightarrow> server" where
  "provider login_page zones_page mutation_page history =
     (case rev history of
        [] \<Rightarrow> []
      | r # rs \<Rightarrow> answer login_page zones_page mutation_page r)"

definition env_auth :: environ where
  "env_auth =
     map_of [(''HE_USERNAME'', ''alice''), (''HE_PASSWORD'', ''secret''),
             (''HE_ZONE'', ''example.com''), (''CERTBOT_DOMAIN'', ''example.com''),
             (''CERTBOT_VALIDATION'', ''abc123'')]"

definition env_cleanup :: environ where
  "env_cleanup = env_auth(''CERTBOT_AUTH_OUTPUT'' \<mapsto> ''98765'')"


section \<open>Properties\<close>

subsection \<open>Searching a page\<close>

lemma tag_matches_single:
  "key \<noteq> ''class'' \<Longrightarrow> v \<noteq> [] \<Longrightarrow>
   tag_matches name [(key, v)] n = (tag_name n = Some name \<and> attr n key = Some v)"
  by (cases n) (auto simp: attr_matches_def split: option.splits)

lemma find_tag_None_conv: "(find_tag html name attrs = None) = (findAll html name attrs = [])"
  by (simp add: find_tag_def split: list.splits)

lemma find_tag_None_iff:
  "key \<noteq> ''class'' \<Longrightarrow> v \<noteq> [] \<Longrightarrow>
   (find_tag html name [(key, v)] = None) = (\<not> has_element html name key v)"
  by (simp add: find_tag_None_conv findAll_def has_element_def list_ex_iff filter_empty_conv
        tag_matches_single)

subsection \<open>The operations, request by request\<close>

lemma login_eq:
  "login srv u p =
     (if has_element (srv [landing_GET, login_POST u p]) ''div'' ''id'' ''dns_err''
      then (Inl (ValueError ''ERROR: HE login failed, check HE_USER and HE_PASS''),
            [landing_GET, login_POST u p])
      else (Inr [landing_GET, login_POST u p], [landing_GET, login_POST u p]))"
proof -
  have "(find_tag html ''div'' [(''id'', ''dns_err'')] \<noteq> None)
          = has_element html ''div'' ''id'' ''dns_err''" for html
    using find_tag_None_iff [of "''id''" "''dns_err''" html "''div''"] by simp
  then show ?thesis
    by (simp add: login_def session_get_def session_post_def landing_GET_def login_POST_def)
qed

lemma get_zone_id_eq:
  "get_zone_id srv s zone =
     ((case find_tag (srv (s @ [zones_GET])) ''img'' [(''name'', zone), (''alt'', ''delete'')] of
         None \<Rightarrow> Inl (ValueError ''ERROR: Domain not found in account, check CERTBOT_DOMAIN'')
       | Some t \<Rightarrow> getitem t ''value''),
      s @ [zones_GET])"
  by (simp add: get_zone_id_def session_get_def zones_GET_def split: option.splits)

lemma delete_validation_eq:
  "delete_validation srv s zone record_id =
     (case fst (get_zone_id srv s zone) of
        Inl error \<Rightarrow> (Inl error, s @ [zones_GET])
      | Inr zone_id \<Rightarrow>
          (if has_element (srv (s @ [zones_GET, delete_POST zone_id record_id]))
                ''div'' ''id'' ''dns_status''
           then Inr ()
           else Inl (RuntimeError ''ERROR: Unable to delete validation record, either it does not exist, or it needs to be manually removed''),
           s @ [zones_GET, delete_POST zone_id record_id]))"
proof -
  have "(find_tag html ''div'' [(''id'', ''dns_status'')] = None)
          = (\<not> has_element html ''div'' ''id'' ''dns_status'')" for html
    using find_tag_None_iff [of "''id''" "''dns_status''" html "''div''"] by simp
  then show ?thesis
    by (simp add: delete_validation_def get_zone_id_eq session_post_def delete_POST_def
             split: sum.splits)
qed

lemma set_validation_eq:
  "set_validation srv s zone d v =
     (case fst (get_zone_id srv s zone) of
        Inl error \<Rightarrow> (Inl error, s @ [zones_GET])
      | Inr zone_id \<Rightarrow>
          (scan_records (''_acme-challenge.'' @ d)
             (findAll (srv (s @ [zones_GET, create_POST zone_id d v]))
                ''tr'' [(''class'', ''dns_tr'')]),
           s @ [zones_GET, create_POST zone_id d v]))"
  by (simp add: set_validation_def get_zone_id_eq session_post_def create_POST_def Let_def
           split: sum.splits)

subsection \<open>The scan of the record table\<close>

lemma found_in_conv: "found_in name cells = list_ex (\<lambda>cell. get_text cell = name) cells"
  by (induction cells) auto

lemma found_in_row:
  "found_in name (tag_findAll row ''td'' [(''class'', ''dns_view'')]) = row_matches name row"
  by (simp add: found_in_conv row_matches_def)

lemma getitem_not_RuntimeError: "getitem t key \<noteq> Inl (RuntimeError m)"
  by (cases t) (auto split: option.splits)

lemma scan_records_first:
  "k < length rows \<Longrightarrow> row_matches name (rows ! k) \<Longrightarrow>
   (\<forall>j<k. \<not> row_matches name (rows ! j)) \<Longrightarrow>
   scan_records name rows = getitem (rows ! k) ''id''"
proof (induction rows arbitrary: k)
  case Nil
  then show ?case by simp
next
  case (Cons r rows)
  show ?case
  proof (cases k)
    case 0
    with Cons.prems show ?thesis by (simp add: found_in_row)
  next
    case (Suc k')
    with Cons.prems have "\<not> row_matches name r" by auto
    moreover from Suc Cons.prems have "scan_records name rows = getitem (rows ! k') ''id''"
      by (intro Cons.IH) auto
    ultimately show ?thesis using Suc by (simp add: found_in_row)
  qed
qed

lemma scan_records_none:
  "(\<forall>r \<in> set rows. \<not> row_matches name r) \<Longrightarrow>
   scan_records name rows =
     Inl (RuntimeError ''ERROR: Record not created or not found in HE, check that it was created'')"
  by (induction rows) (simp_all add: found_in_row)

lemma scan_records_RuntimeError:
  "scan_records name rows = Inl (RuntimeError m) \<Longrightarrow> \<forall>r \<in> set rows. \<not> row_matches name r"
  by (induction rows) (auto simp: found_in_row getitem_not_RuntimeError split: if_splits)

lemma first_match_exists:
  "\<exists>r \<in> set rows. P r \<Longrightarrow> \<exists>k<length rows. P (rows ! k) \<and> (\<forall>j<k. \<not> P (rows ! j))"
proof (induction rows)
  case Nil
  then show ?case by simp
next
  case (Cons r rows)
  show ?case
  proof (cases "P r")
    case True
    then have "0 < length (r # rows) \<and> P ((r # rows) ! 0) \<and> (\<forall>j<0. \<not> P ((r # rows) ! j))"
      by simp
    then show ?thesis by blast
  next
    case False
    with Cons.prems have "\<exists>r \<in> set rows. P r" by auto
    then obtain k where k: "k < length rows" "P (rows ! k)" "\<forall>j<k. \<not> P (rows ! j)"
      using Cons.IH by blast
    have "\<forall>j<Suc k. \<not> P ((r # rows) ! j)"
    proof (intro allI impI)
      fix j assume "j < Suc k"
      then show "\<not> P ((r # rows) ! j)" using False k(3) by (cases j) auto
    qed
    with k have "Suc k < length (r # rows) \<and> P ((r # rows) ! Suc k)
                 \<and> (\<forall>j<Suc k. \<not> P ((r # rows) ! j))"
      by simp
    then show ?thesis by blast
  qed
qed

subsection \<open>The three ways through main\<close>

lemma main_login_failed:
  assumes "has_required env u p z d v"
    and "has_element (srv [landing_GET, login_POST u p]) ''div'' ''id'' ''dns_err''"
  shows "main srv env =
           finish (Exit 1) [] [''ERROR: HE login failed, check HE_USER and HE_PASS''] []
             [landing_GET, login_POST u p]"
  using assms
  by (simp add: main_def has_required_def environ_get_def login_eq)

lemma main_cleanup:
  assumes "has_required env u p z d v"
    and "\<not> has_element (srv [landing_GET, login_POST u p]) ''div'' ''id'' ''dns_err''"
    and "env ''CERTBOT_AUTH_OUTPUT'' = Some record_id"
  shows "main srv env =
           (case delete_validation srv [landing_GET, login_POST u p] z record_id of
              (Inl error, s') \<Rightarrow>
                (if is_RuntimeError error
                 then finish (Exit 1) [] [str_exn error] [] s'
                 else finish (Unhandled error) [] [] [] s')
            | (Inr u, s') \<Rightarrow> finish (Exit 0) [] [] [] s')"
  using assms
  by (simp add: main_def has_required_def environ_get_def login_eq)

lemma main_auth:
  assumes "has_required env u p z d v"
    and "\<not> has_element (srv [landing_GET, login_POST u p]) ''div'' ''id'' ''dns_err''"
    and "env ''CERTBOT_AUTH_OUTPUT'' = None"
  shows "main srv env =
           (case set_validation srv [landing_GET, login_POST u p] z d v of
              (Inl error, s') \<Rightarrow>
                (if is_ValueError error \<or> is_RuntimeError error
                 then finish (Exit 1) [] [str_exn error] [] s'
                 else finish (Unhandled error) [] [] [] s')
            | (Inr record_id, s') \<Rightarrow>
                (case sleep (case env ''HE_PROPAGATION_SECONDS'' of
                               Some t \<Rightarrow> PyStr t | None \<Rightarrow> PyInt 30) of
                   Inl error \<Rightarrow> finish (Unhandled error) [record_id] [] [] s'
                 | Inr n \<Rightarrow> finish (Exit 0) [record_id] [] [n] s'))"
  using assms
  by (simp add: main_def has_required_def environ_get_def login_eq
           split: option.splits prod.splits sum.splits)

subsection \<open>Missing parameters\<close>

text \<open>
  Claim C8. Whenever one of the variables \<^verbatim>\<open>HE_USERNAME\<close>, \<^verbatim>\<open>HE_PASSWORD\<close>,
  \<^verbatim>\<open>HE_ZONE\<close>, \<^verbatim>\<open>CERTBOT_DOMAIN\<close>, \<^verbatim>\<open>CERTBOT_VALIDATION\<close> is missing from the
  environment, the run prints one line to the error stream that names a missing variable
  (the first one in the order the program reads them), prints nothing to standard output,
  exits with code 1 and has sent no request to the provider.
\<close>

theorem missing_variable_exits_1:
  assumes "\<exists>k \<in> set required_vars. env k = None"
  shows "\<exists>k. List.find (\<lambda>k. env k = None) required_vars = Some k
           \<and> main srv env =
               \<lparr>outcome = Exit 1, stdout = [],
                stderr = [''ERROR: Required environment variable '' @ [CHR 0x27] @ k
                            @ [CHR 0x27] @ '' is unset''],
                slept = [], requests = []\<rparr>"
  using assms
  by (auto simp: required_vars_def main_def environ_get_def missing_def finish_def
           split: option.splits)

theorem missing_variable_exits_1_witness:
  "(\<exists>k \<in> set required_vars. (env_auth(''HE_ZONE'' := None)) k = None)
   \<and> List.find (\<lambda>k. (env_auth(''HE_ZONE'' := None)) k = None) required_vars = Some ''HE_ZONE''
   \<and> main (provider page_welcome page_zones page_records) (env_auth(''HE_ZONE'' := None)) =
       \<lparr>outcome = Exit 1, stdout = [],
        stderr = [''ERROR: Required environment variable '' @ [CHR 0x27] @ ''HE_ZONE''
                    @ [CHR 0x27] @ '' is unset''],
        slept = [], requests = []\<rparr>"
proof -
  have h: "\<exists>k \<in> set required_vars. (env_auth(''HE_ZONE'' := None)) k = None"
    by (simp add: required_vars_def)
  have f: "List.find (\<lambda>k. (env_auth(''HE_ZONE'' := None)) k = None) required_vars
             = Some ''HE_ZONE''"
    by (simp add: required_vars_def env_auth_def)
  from missing_variable_exits_1 [OF h, of "provider page_welcome page_zones page_records"]
  obtain k where
    k: "List.find (\<lambda>k. (env_auth(''HE_ZONE'' := None)) k = None) required_vars = Some k"
    and m: "main (provider page_welcome page_zones page_records) (env_auth(''HE_ZONE'' := None)) =
               \<lparr>outcome = Exit 1, stdout = [],
                stderr = [''ERROR: Required environment variable '' @ [CHR 0x27] @ k
                            @ [CHR 0x27] @ '' is unset''],
                slept = [], requests = []\<rparr>"
    by blast
  from k f have "k = ''HE_ZONE''" by simp
  with m f h show ?thesis by blast
qed


subsection \<open>Login\<close>

text \<open>
  Claim C6. Whatever page answers the login POST, \<^verbatim>\<open>login\<close> raises its
  \<^verbatim>\<open>ValueError\<close> (the authentication failure) exactly when the page contains the
  element \<^verbatim>\<open><div id="dns_err">\<close>; in every other case it returns the session as it
  is after the landing-page GET and the login POST, without looking at the page any
  further. When the credentials are rejected, the run prints the message to the error
  stream and exits with code 1 having sent those two requests only: the management page,
  which zone resolution reads, is never requested.
\<close>

theorem login_fails_iff_error_marker:
  "(fst (login srv u p) = Inl (ValueError ''ERROR: HE login failed, check HE_USER and HE_PASS''))
     = has_element (srv [landing_GET, login_POST u p]) ''div'' ''id'' ''dns_err''
   \<and> (fst (login srv u p) = Inr [landing_GET, login_POST u p])
       = (\<not> has_element (srv [landing_GET, login_POST u p]) ''div'' ''id'' ''dns_err'')
   \<and> snd (login srv u p) = [landing_GET, login_POST u p]
   \<and> (has_required env u p z d v
        \<and> has_element (srv [landing_GET, login_POST u p]) ''div'' ''id'' ''dns_err''
       \<longrightarrow> main srv env =
             \<lparr>outcome = Exit 1, stdout = [],
              stderr = [''ERROR: HE login failed, check HE_USER and HE_PASS''],
              slept = [], requests = [landing_GET, login_POST u p]\<rparr>
           \<and> zones_GET \<notin> set (requests (main srv env)))"
  by (simp add: login_eq main_login_failed finish_def)
    (simp add: landing_GET_def login_POST_def zones_GET_def)

theorem login_fails_iff_error_marker_witness:
  "has_required env_auth ''alice'' ''secret'' ''example.com'' ''example.com'' ''abc123''
   \<and> has_element
        (provider page_login_error page_zones page_records
           [landing_GET, login_POST ''alice'' ''secret''])
        ''div'' ''id'' ''dns_err''
   \<and> fst (login (provider page_login_error page_zones page_records) ''alice'' ''secret'')
       = Inl (ValueError ''ERROR: HE login failed, check HE_USER and HE_PASS'')
   \<and> main (provider page_login_error page_zones page_records) env_auth =
        \<lparr>outcome = Exit 1, stdout = [],
         stderr = [''ERROR: HE login failed, check HE_USER and HE_PASS''],
         slept = [], requests = [landing_GET, login_POST ''alice'' ''secret'']\<rparr>
   \<and> zones_GET \<notin> set (requests (main (provider page_login_error page_zones page_records) env_auth))"
proof -
  have r: "has_required env_auth ''alice'' ''secret'' ''example.com'' ''example.com'' ''abc123''"
    by (simp add: has_required_def env_auth_def)
  have e: "has_element
        (provider page_login_error page_zones page_records
           [landing_GET, login_POST ''alice'' ''secret''])
        ''div'' ''id'' ''dns_err''"
    by code_simp
  from r e login_fails_iff_error_marker
         [of "provider page_login_error page_zones page_records" "''alice''" "''secret''"
             env_auth "''example.com''" "''example.com''" "''abc123''"]
  show ?thesis by blast
qed



subsection \<open>Deleting the validation record\<close>

text \<open>
  Claim C5. Once the zone is resolved, whatever page answers the delete POST,
  \<^verbatim>\<open>delete_validation\<close> succeeds exactly when the page contains the element
  \<^verbatim>\<open><div id="dns_status">\<close>, and raises its \<^verbatim>\<open>RuntimeError\<close> (the mutation failure)
  exactly when the page does not. A cleanup run whose deletion succeeds exits with code 0
  and has printed nothing, on either stream; one whose deletion fails prints the
  message to the error stream and exits with code 1.
\<close>

theorem delete_succeeds_iff_status_marker:
  "(fst (get_zone_id srv s zone) = Inr zone_id \<longrightarrow>
      ((fst (delete_validation srv s zone record_id) = Inr ())
         = has_element (srv (s @ [zones_GET, delete_POST zone_id record_id]))
             ''div'' ''id'' ''dns_status'')
      \<and> ((fst (delete_validation srv s zone record_id)
            = Inl (RuntimeError ''ERROR: Unable to delete validation record, either it does not exist, or it needs to be manually removed''))
         = (\<not> has_element (srv (s @ [zones_GET, delete_POST zone_id record_id]))
                ''div'' ''id'' ''dns_status'')))
   \<and> (has_required env u p z d v \<and> env ''CERTBOT_AUTH_OUTPUT'' = Some record_id
        \<and> \<not> has_element (srv [landing_GET, login_POST u p]) ''div'' ''id'' ''dns_err''
        \<and> fst (get_zone_id srv [landing_GET, login_POST u p] z) = Inr zone_id
       \<longrightarrow> main srv env =
             (if has_element
                   (srv [landing_GET, login_POST u p, zones_GET, delete_POST zone_id record_id])
                   ''div'' ''id'' ''dns_status''
              then \<lparr>outcome = Exit 0, stdout = [], stderr = [], slept = [],
                    requests = [landing_GET, login_POST u p, zones_GET,
                                delete_POST zone_id record_id]\<rparr>
              else \<lparr>outcome = Exit 1, stdout = [],
                    stderr = [''ERROR: Unable to delete validation record, either it does not exist, or it needs to be manually removed''],
                    slept = [],
                    requests = [landing_GET, login_POST u p, zones_GET,
                                delete_POST zone_id record_id]\<rparr>))"
proof (intro conjI impI)
  assume "fst (get_zone_id srv s zone) = Inr zone_id"
  then show "(fst (delete_validation srv s zone record_id) = Inr ())
         = has_element (srv (s @ [zones_GET, delete_POST zone_id record_id]))
             ''div'' ''id'' ''dns_status''"
    by (simp add: delete_validation_eq)
next
  assume "fst (get_zone_id srv s zone) = Inr zone_id"
  then show "(fst (delete_validation srv s zone record_id)
            = Inl (RuntimeError ''ERROR: Unable to delete validation record, either it does not exist, or it needs to be manually removed''))
         = (\<not> has_element (srv (s @ [zones_GET, delete_POST zone_id record_id]))
                ''div'' ''id'' ''dns_status'')"
    by (simp add: delete_validation_eq)
next
  assume a: "has_required env u p z d v \<and> env ''CERTBOT_AUTH_OUTPUT'' = Some record_id
        \<and> \<not> has_element (srv [landing_GET, login_POST u p]) ''div'' ''id'' ''dns_err''
        \<and> fst (get_zone_id srv [landing_GET, login_POST u p] z) = Inr zone_id"
  then have "main srv env =
           (case delete_validation srv [landing_GET, login_POST u p] z record_id of
              (Inl error, s') \<Rightarrow>
                (if is_RuntimeError error
                 then finish (Exit 1) [] [str_exn error] [] s'
                 else finish (Unhandled error) [] [] [] s')
            | (Inr u, s') \<Rightarrow> finish (Exit 0) [] [] [] s')"
    by (intro main_cleanup) auto
  with a show "main srv env =
             (if has_element
                   (srv [landing_GET, login_POST u p, zones_GET, delete_POST zone_id record_id])
                   ''div'' ''id'' ''dns_status''
              then \<lparr>outcome = Exit 0, stdout = [], stderr = [], slept = [],
                    requests = [landing_GET, login_POST u p, zones_GET,
                                delete_POST zone_id record_id]\<rparr>
              else \<lparr>outcome = Exit 1, stdout = [],
                    stderr = [''ERROR: Unable to delete validation record, either it does not exist, or it needs to be manually removed''],
                    slept = [],
                    requests = [landing_GET, login_POST u p, zones_GET,
                                delete_POST zone_id record_id]\<rparr>)"
    by (simp add: delete_validation_eq finish_def)
qed

theorem delete_succeeds_iff_status_marker_witness:
  "fst (get_zone_id (provider page_welcome page_zones page_deleted)
          [landing_GET, login_POST ''alice'' ''secret''] ''example.com'') = Inr ''12345''
   \<and> has_required env_cleanup ''alice'' ''secret'' ''example.com'' ''example.com'' ''abc123''
   \<and> env_cleanup ''CERTBOT_AUTH_OUTPUT'' = Some ''98765''
   \<and> fst (delete_validation (provider page_welcome page_zones page_deleted)
             [landing_GET, login_POST ''alice'' ''secret''] ''example.com'' ''98765'') = Inr ()
   \<and> main (provider page_welcome page_zones page_deleted) env_cleanup =
        \<lparr>outcome = Exit 0, stdout = [], stderr = [], slept = [],
         requests = [landing_GET, login_POST ''alice'' ''secret'', zones_GET,
                     delete_POST ''12345'' ''98765'']\<rparr>
   \<and> fst (delete_validation (provider page_welcome page_zones page_not_deleted)
             [landing_GET, login_POST ''alice'' ''secret''] ''example.com'' ''98765'')
       = Inl (RuntimeError ''ERROR: Unable to delete validation record, either it does not exist, or it needs to be manually removed'')"
proof -
  let ?s = "[landing_GET, login_POST ''alice'' ''secret'']"
  let ?ok = "provider page_welcome page_zones page_deleted"
  let ?ko = "provider page_welcome page_zones page_not_deleted"
  have z: "fst (get_zone_id ?ok ?s ''example.com'') = Inr ''12345''"
    by code_simp
  have z': "fst (get_zone_id ?ko ?s ''example.com'') = Inr ''12345''"
    by code_simp
  have r: "has_required env_cleanup ''alice'' ''secret'' ''example.com'' ''example.com'' ''abc123''"
    by (simp add: has_required_def env_cleanup_def env_auth_def)
  have c: "env_cleanup ''CERTBOT_AUTH_OUTPUT'' = Some ''98765''"
    by (simp add: env_cleanup_def)
  have l: "\<not> has_element (?ok ?s) ''div'' ''id'' ''dns_err''"
    by code_simp
  have m: "has_element (?ok (?s @ [zones_GET, delete_POST ''12345'' ''98765'']))
             ''div'' ''id'' ''dns_status''"
    by code_simp
  have m': "\<not> has_element (?ko (?s @ [zones_GET, delete_POST ''12345'' ''98765'']))
             ''div'' ''id'' ''dns_status''"
    by code_simp
  note ok = delete_succeeds_iff_status_marker
         [of ?ok ?s "''example.com''" "''12345''" "''98765''" env_cleanup
             "''alice''" "''secret''" "''example.com''" "''example.com''" "''abc123''"]
  note ko = delete_succeeds_iff_status_marker
         [of ?ko ?s "''example.com''" "''12345''" "''98765''" env_cleanup
             "''alice''" "''secret''" "''example.com''" "''example.com''" "''abc123''"]
  have d: "fst (delete_validation ?ok ?s ''example.com'' ''98765'') = Inr ()"
    using ok z m by blast
  have d': "fst (delete_validation ?ko ?s ''example.com'' ''98765'')
       = Inl (RuntimeError ''ERROR: Unable to delete validation record, either it does not exist, or it needs to be manually removed'')"
    using ko z' m' by blast
  have "main ?ok env_cleanup =
        \<lparr>outcome = Exit 0, stdout = [], stderr = [], slept = [],
         requests = [landing_GET, login_POST ''alice'' ''secret'', zones_GET,
                     delete_POST ''12345'' ''98765'']\<rparr>"
    using ok z r c l m by simp
  with z r c d d' show ?thesis by blast
qed



subsection \<open>Creating the validation record\<close>

text \<open>
  Claim C3. Every POST that \<^verbatim>\<open>set_validation\<close> sends, for a domain \<open>d\<close> and a
  validation token \<open>v\<close>, goes to the index endpoint and carries the record type
  \<^verbatim>\<open>TXT\<close>, the name \<^verbatim>\<open>_acme-challenge.\<close> followed by \<open>d\<close>, the content \<open>v\<close>, the TTL
  \<^verbatim>\<open>300\<close> and an empty record id. It sends that POST, with the resolved zone id, whenever
  the zone resolves.
\<close>

theorem create_form_fields:
  "(\<forall>url form.
       POST url form \<in> set (drop (length s) (snd (set_validation srv s zone d v))) \<longrightarrow>
         url = ''https://dns.he.net/index.cgi''
         \<and> map_of form ''Type'' = Some ''TXT''
         \<and> map_of form ''Name'' = Some (''_acme-challenge.'' @ d)
         \<and> map_of form ''Content'' = Some v
         \<and> map_of form ''TTL'' = Some ''300''
         \<and> map_of form ''hosted_dns_recordid'' = Some '''')
   \<and> (\<forall>zone_id. fst (get_zone_id srv s zone) = Inr zone_id \<longrightarrow>
         (\<exists>form. snd (set_validation srv s zone d v)
                    = s @ [zones_GET, POST ''https://dns.he.net/index.cgi'' form]
                  \<and> map_of form ''hosted_dns_zoneid'' = Some zone_id))"
proof (rule conjI)
  show "\<forall>zone_id. fst (get_zone_id srv s zone) = Inr zone_id \<longrightarrow>
         (\<exists>form. snd (set_validation srv s zone d v)
                    = s @ [zones_GET, POST ''https://dns.he.net/index.cgi'' form]
                  \<and> map_of form ''hosted_dns_zoneid'' = Some zone_id)"
    by (simp add: set_validation_eq create_POST_def)
next
  show "\<forall>url form.
       POST url form \<in> set (drop (length s) (snd (set_validation srv s zone d v))) \<longrightarrow>
         url = ''https://dns.he.net/index.cgi''
         \<and> map_of form ''Type'' = Some ''TXT''
         \<and> map_of form ''Name'' = Some (''_acme-challenge.'' @ d)
         \<and> map_of form ''Content'' = Some v
         \<and> map_of form ''TTL'' = Some ''300''
         \<and> map_of form ''hosted_dns_recordid'' = Some ''''"
  proof (intro allI impI)
    fix url form
    assume a: "POST url form \<in> set (drop (length s) (snd (set_validation srv s zone d v)))"
    show "url = ''https://dns.he.net/index.cgi''
           \<and> map_of form ''Type'' = Some ''TXT''
           \<and> map_of form ''Name'' = Some (''_acme-challenge.'' @ d)
           \<and> map_of form ''Content'' = Some v
           \<and> map_of form ''TTL'' = Some ''300''
           \<and> map_of form ''hosted_dns_recordid'' = Some ''''"
    proof (cases "fst (get_zone_id srv s zone)")
      case (Inl e)
      with a show ?thesis by (simp add: set_validation_eq zones_GET_def)
    next
      case (Inr zone_id)
      with a have "POST url form = create_POST zone_id d v"
        by (simp add: set_validation_eq zones_GET_def)
      then show ?thesis by (simp add: create_POST_def)
    qed
  qed
qed

theorem create_form_fields_witness:
  "fst (get_zone_id (provider page_welcome page_zones page_records)
          [landing_GET, login_POST ''alice'' ''secret''] ''example.com'') = Inr ''12345''
   \<and> (\<exists>form. snd (set_validation (provider page_welcome page_zones page_records)
                    [landing_GET, login_POST ''alice'' ''secret'']
                    ''example.com'' ''example.com'' ''abc123'')
               = [landing_GET, login_POST ''alice'' ''secret'', zones_GET,
                  POST ''https://dns.he.net/index.cgi'' form]
             \<and> map_of form ''hosted_dns_zoneid'' = Some ''12345''
             \<and> map_of form ''Type'' = Some ''TXT''
             \<and> map_of form ''Name'' = Some ''_acme-challenge.example.com''
             \<and> map_of form ''Content'' = Some ''abc123''
             \<and> map_of form ''TTL'' = Some ''300''
             \<and> map_of form ''hosted_dns_recordid'' = Some '''')"
proof -
  let ?s = "[landing_GET, login_POST ''alice'' ''secret'']"
  let ?srv = "provider page_welcome page_zones page_records"
  note t = create_form_fields [of ?s ?srv "''example.com''" "''example.com''" "''abc123''"]
  have z: "fst (get_zone_id ?srv ?s ''example.com'') = Inr ''12345''"
    by code_simp
  with t obtain form where
    f: "snd (set_validation ?srv ?s ''example.com'' ''example.com'' ''abc123'')
          = ?s @ [zones_GET, POST ''https://dns.he.net/index.cgi'' form]"
    and g: "map_of form ''hosted_dns_zoneid'' = Some ''12345''"
    by blast
  from f have "POST ''https://dns.he.net/index.cgi'' form
      \<in> set (drop (length ?s) (snd (set_validation ?srv ?s ''example.com'' ''example.com'' ''abc123'')))"
    by simp
  with t have "map_of form ''Type'' = Some ''TXT''
         \<and> map_of form ''Name'' = Some (''_acme-challenge.'' @ ''example.com'')
         \<and> map_of form ''Content'' = Some ''abc123''
         \<and> map_of form ''TTL'' = Some ''300''
         \<and> map_of form ''hosted_dns_recordid'' = Some ''''"
    by blast
  with f g z show ?thesis by simp
qed



text \<open>
  Claim C4. Once the zone is resolved, whatever page answers the create POST: let
  \<open>rows\<close> be its record rows (\<^verbatim>\<open>tr\<close> of class \<^verbatim>\<open>dns_tr\<close>) in document order. If row
  \<open>k\<close> contains a viewable-field cell (\<^verbatim>\<open>td\<close> of class \<^verbatim>\<open>dns_view\<close>) whose text is
  exactly the record name and no earlier row does, the result of \<^verbatim>\<open>set_validation\<close> is
  \<^verbatim>\<open>rows[k]["id"]\<close>: the row's own \<^verbatim>\<open>id\<close> attribute, returned as it is when the row
  carries one (what the access does on a row without it is the subject of claim C10).
  \<^verbatim>\<open>set_validation\<close> raises its \<^verbatim>\<open>RuntimeError\<close> (the mutation failure) exactly when
  no row contains such a cell. Such a first row exists whenever some row matches.
\<close>

theorem create_returns_first_matching_row:
  assumes "fst (get_zone_id srv s zone) = Inr zone_id"
    and "rows = findAll (srv (s @ [zones_GET, create_POST zone_id d v]))
                  ''tr'' [(''class'', ''dns_tr'')]"
    and "name = ''_acme-challenge.'' @ d"
  shows "(\<forall>k<length rows.
            row_matches name (rows ! k) \<and> (\<forall>j<k. \<not> row_matches name (rows ! j)) \<longrightarrow>
              fst (set_validation srv s zone d v) = getitem (rows ! k) ''id''
              \<and> (\<forall>i. attr (rows ! k) ''id'' = Some i \<longrightarrow>
                     fst (set_validation srv s zone d v) = Inr i))
         \<and> ((fst (set_validation srv s zone d v)
               = Inl (RuntimeError ''ERROR: Record not created or not found in HE, check that it was created''))
             = (\<forall>r \<in> set rows. \<not> row_matches name r))
         \<and> ((\<exists>r \<in> set rows. row_matches name r) \<longrightarrow>
               (\<exists>k<length rows. row_matches name (rows ! k)
                                 \<and> (\<forall>j<k. \<not> row_matches name (rows ! j))))"
proof -
  have res: "fst (set_validation srv s zone d v) = scan_records name rows"
    using assms by (simp add: set_validation_eq)
  have first: "fst (set_validation srv s zone d v) = getitem (rows ! k) ''id''
              \<and> (\<forall>i. attr (rows ! k) ''id'' = Some i \<longrightarrow>
                     fst (set_validation srv s zone d v) = Inr i)"
    if "k < length rows" "row_matches name (rows ! k)" "\<forall>j<k. \<not> row_matches name (rows ! j)"
    for k
  proof -
    have "scan_records name rows = getitem (rows ! k) ''id''"
      using that by (rule scan_records_first)
    moreover have "getitem t ''id'' = Inr i" if "attr t ''id'' = Some i" for t i
      using that by (cases t) auto
    ultimately show ?thesis using res by simp
  qed
  have none: "(fst (set_validation srv s zone d v)
               = Inl (RuntimeError ''ERROR: Record not created or not found in HE, check that it was created''))
             = (\<forall>r \<in> set rows. \<not> row_matches name r)"
    using res scan_records_none [of rows name] scan_records_RuntimeError [of name rows]
    by auto
  have ex: "(\<exists>r \<in> set rows. row_matches name r) \<longrightarrow>
               (\<exists>k<length rows. row_matches name (rows ! k)
                                 \<and> (\<forall>j<k. \<not> row_matches name (rows ! j)))"
    using first_match_exists [of rows "row_matches name"] by blast
  from first none ex show ?thesis by blast
qed

theorem create_returns_first_matching_row_witness:
  "fst (get_zone_id (provider page_welcome page_zones page_records)
          [landing_GET, login_POST ''alice'' ''secret''] ''example.com'') = Inr ''12345''
   \<and> length (findAll page_records ''tr'' [(''class'', ''dns_tr'')]) = 3
   \<and> \<not> row_matches ''_acme-challenge.example.com''
          (findAll page_records ''tr'' [(''class'', ''dns_tr'')] ! 0)
   \<and> row_matches ''_acme-challenge.example.com''
          (findAll page_records ''tr'' [(''class'', ''dns_tr'')] ! 1)
   \<and> row_matches ''_acme-challenge.example.com''
          (findAll page_records ''tr'' [(''class'', ''dns_tr'')] ! 2)
   \<and> attr (findAll page_records ''tr'' [(''class'', ''dns_tr'')] ! 1) ''id'' = Some ''98765''
   \<and> fst (set_validation (provider page_welcome page_zones page_records)
            [landing_GET, login_POST ''alice'' ''secret''] ''example.com'' ''example.com'' ''abc123'')
       = Inr ''98765''"
proof -
  let ?s = "[landing_GET, login_POST ''alice'' ''secret'']"
  let ?srv = "provider page_welcome page_zones page_records"
  let ?rows = "findAll page_records ''tr'' [(''class'', ''dns_tr'')]"
  let ?name = "''_acme-challenge.example.com''"
  have z: "fst (get_zone_id ?srv ?s ''example.com'') = Inr ''12345''"
    by code_simp
  have p: "?rows = findAll (?srv (?s @ [zones_GET, create_POST ''12345'' ''example.com'' ''abc123'']))
                     ''tr'' [(''class'', ''dns_tr'')]"
    by (simp add: provider_def create_POST_def)
  have n: "?name = ''_acme-challenge.'' @ ''example.com''"
    by simp
  note t = create_returns_first_matching_row [OF z p n]
  have len: "length ?rows = 3" by code_simp
  have r0: "\<not> row_matches ?name (?rows ! 0)" by code_simp
  have r1: "row_matches ?name (?rows ! 1)" by code_simp
  have r2: "row_matches ?name (?rows ! 2)" by code_simp
  have a1: "attr (?rows ! 1) ''id'' = Some ''98765''" by code_simp
  have before: "\<forall>j<1. \<not> row_matches ?name (?rows ! j)"
    using r0 by simp
  have "1 < length ?rows" using len by simp
  with t r1 before a1
  have "fst (set_validation ?srv ?s ''example.com'' ''example.com'' ''abc123'') = Inr ''98765''"
    by blast
  with z len r0 r1 r2 a1 show ?thesis by blast
qed



subsection \<open>Unguarded attribute reads\<close>

lemma find_tag_is_Tag: "find_tag html name attrs = Some t \<Longrightarrow> \<exists>attrs' cs. t = Tag name attrs' cs"
proof -
  assume "find_tag html name attrs = Some t"
  then have "t \<in> set (findAll html name attrs)"
    by (auto simp: find_tag_def split: list.splits)
  then have "tag_matches name attrs t" by (simp add: findAll_def)
  then show ?thesis by (cases t) auto
qed

lemma getitem_missing: "tag_name t \<noteq> None \<Longrightarrow> attr t key = None \<Longrightarrow> getitem t key = Inl (KeyError key)"
  by (cases t) auto

lemma findAll_tag_name: "t \<in> set (findAll html name attrs) \<Longrightarrow> tag_name t = Some name"
  by (cases t) (auto simp: findAll_def)

text \<open>
  Claim C10. The two attribute reads are unguarded. Whenever the management page contains
  the zone's delete element but that element carries no \<^verbatim>\<open>value\<close> attribute, zone
  resolution raises \<^verbatim>\<open>KeyError\<close>, in \<^verbatim>\<open>get_zone_id\<close> and so in both operations, and
  the run, in either phase, ends with that exception unhandled, nothing printed by the
  program on either stream: no resolution failure is reported. Whenever the first matching
  row of the create response carries no \<^verbatim>\<open>id\<close> attribute, \<^verbatim>\<open>set_validation\<close> raises
  \<^verbatim>\<open>KeyError\<close> and the run ends with it unhandled: no mutation failure is reported.
\<close>

theorem missing_attribute_unhandled:
  "(find_tag (srv (s @ [zones_GET])) ''img'' [(''name'', zone), (''alt'', ''delete'')] = Some t
      \<and> attr t ''value'' = None
    \<longrightarrow> fst (get_zone_id srv s zone) = Inl (KeyError ''value'')
        \<and> fst (delete_validation srv s zone record_id) = Inl (KeyError ''value'')
        \<and> fst (set_validation srv s zone d v) = Inl (KeyError ''value''))
   \<and> (has_required env u p z d v
      \<and> \<not> has_element (srv [landing_GET, login_POST u p]) ''div'' ''id'' ''dns_err''
      \<and> find_tag (srv [landing_GET, login_POST u p, zones_GET]) ''img''
            [(''name'', z), (''alt'', ''delete'')] = Some t
      \<and> attr t ''value'' = None
    \<longrightarrow> main srv env =
          \<lparr>outcome = Unhandled (KeyError ''value''), stdout = [], stderr = [], slept = [],
           requests = [landing_GET, login_POST u p, zones_GET]\<rparr>)
   \<and> (fst (get_zone_id srv s zone) = Inr zone_id
      \<and> rows = findAll (srv (s @ [zones_GET, create_POST zone_id d v]))
                  ''tr'' [(''class'', ''dns_tr'')]
      \<and> k < length rows
      \<and> row_matches (''_acme-challenge.'' @ d) (rows ! k)
      \<and> (\<forall>j<k. \<not> row_matches (''_acme-challenge.'' @ d) (rows ! j))
      \<and> attr (rows ! k) ''id'' = None
    \<longrightarrow> fst (set_validation srv s zone d v) = Inl (KeyError ''id''))
   \<and> (has_required env u p z d v
      \<and> \<not> has_element (srv [landing_GET, login_POST u p]) ''div'' ''id'' ''dns_err''
      \<and> env ''CERTBOT_AUTH_OUTPUT'' = None
      \<and> fst (get_zone_id srv [landing_GET, login_POST u p] z) = Inr zone_id
      \<and> rows = findAll (srv [landing_GET, login_POST u p, zones_GET, create_POST zone_id d v])
                  ''tr'' [(''class'', ''dns_tr'')]
      \<and> k < length rows
      \<and> row_matches (''_acme-challenge.'' @ d) (rows ! k)
      \<and> (\<forall>j<k. \<not> row_matches (''_acme-challenge.'' @ d) (rows ! j))
      \<and> attr (rows ! k) ''id'' = None
    \<longrightarrow> main srv env =
          \<lparr>outcome = Unhandled (KeyError ''id''), stdout = [], stderr = [], slept = [],
           requests = [landing_GET, login_POST u p, zones_GET, create_POST zone_id d v]\<rparr>)"
proof -
  have zone_op: "fst (get_zone_id srv s zone) = Inl (KeyError ''value'')"
    if "find_tag (srv (s @ [zones_GET])) ''img'' [(''name'', zone), (''alt'', ''delete'')] = Some t"
      "attr t ''value'' = None" for s zone
  proof -
    from that(1) obtain a cs where "t = Tag ''img'' a cs" using find_tag_is_Tag by blast
    with that show ?thesis by (simp add: get_zone_id_eq)
  qed
  have A: "fst (get_zone_id srv s zone) = Inl (KeyError ''value'')
        \<and> fst (delete_validation srv s zone record_id) = Inl (KeyError ''value'')
        \<and> fst (set_validation srv s zone d v) = Inl (KeyError ''value'')"
    if "find_tag (srv (s @ [zones_GET])) ''img'' [(''name'', zone), (''alt'', ''delete'')] = Some t"
      "attr t ''value'' = None"
    using zone_op [OF that] by (simp add: delete_validation_eq set_validation_eq)
  have B: "main srv env =
          \<lparr>outcome = Unhandled (KeyError ''value''), stdout = [], stderr = [], slept = [],
           requests = [landing_GET, login_POST u p, zones_GET]\<rparr>"
    if r: "has_required env u p z d v"
      and l: "\<not> has_element (srv [landing_GET, login_POST u p]) ''div'' ''id'' ''dns_err''"
      and f: "find_tag (srv [landing_GET, login_POST u p, zones_GET]) ''img''
            [(''name'', z), (''alt'', ''delete'')] = Some t"
      and a: "attr t ''value'' = None"
  proof -
    have g: "fst (get_zone_id srv [landing_GET, login_POST u p] z) = Inl (KeyError ''value'')"
      using f a by (intro zone_op) simp_all
    show ?thesis
    proof (cases "env ''CERTBOT_AUTH_OUTPUT''")
      case None
      from main_auth [where env = env and srv = srv, OF r l None] g show ?thesis
        by (simp add: set_validation_eq finish_def)
    next
      case (Some rid)
      from main_cleanup [where env = env and srv = srv, OF r l Some] g show ?thesis
        by (simp add: delete_validation_eq finish_def)
    qed
  qed
  have row_op: "fst (set_validation srv s zone d v) = Inl (KeyError ''id'')"
    if z: "fst (get_zone_id srv s zone) = Inr zone_id"
      and rows: "rows = findAll (srv (s @ [zones_GET, create_POST zone_id d v]))
                  ''tr'' [(''class'', ''dns_tr'')]"
      and k: "k < length rows" "row_matches (''_acme-challenge.'' @ d) (rows ! k)"
        "\<forall>j<k. \<not> row_matches (''_acme-challenge.'' @ d) (rows ! j)"
      and a: "attr (rows ! k) ''id'' = None" for s zone
  proof -
    have "scan_records (''_acme-challenge.'' @ d) rows = getitem (rows ! k) ''id''"
      using k by (rule scan_records_first)
    moreover have "rows ! k \<in> set rows" using k(1) by simp
    then have "tag_name (rows ! k) = Some ''tr''"
      unfolding rows by (rule findAll_tag_name)
    then have "getitem (rows ! k) ''id'' = Inl (KeyError ''id'')"
      using a by (intro getitem_missing) simp_all
    ultimately show ?thesis using z rows by (simp add: set_validation_eq)
  qed
  have D: "main srv env =
          \<lparr>outcome = Unhandled (KeyError ''id''), stdout = [], stderr = [], slept = [],
           requests = [landing_GET, login_POST u p, zones_GET, create_POST zone_id d v]\<rparr>"
    if r: "has_required env u p z d v"
      and l: "\<not> has_element (srv [landing_GET, login_POST u p]) ''div'' ''id'' ''dns_err''"
      and c: "env ''CERTBOT_AUTH_OUTPUT'' = None"
      and z: "fst (get_zone_id srv [landing_GET, login_POST u p] z) = Inr zone_id"
      and rows: "rows = findAll (srv [landing_GET, login_POST u p, zones_GET, create_POST zone_id d v])
                  ''tr'' [(''class'', ''dns_tr'')]"
      and k: "k < length rows" "row_matches (''_acme-challenge.'' @ d) (rows ! k)"
        "\<forall>j<k. \<not> row_matches (''_acme-challenge.'' @ d) (rows ! j)"
      and a: "attr (rows ! k) ''id'' = None"
  proof -
    have "fst (set_validation srv [landing_GET, login_POST u p] z d v) = Inl (KeyError ''id'')"
      using z rows k a by (intro row_op) simp_all
    with main_auth [where env = env and srv = srv, OF r l c] z show ?thesis
      by (simp add: set_validation_eq finish_def)
  qed
  from A B row_op D show ?thesis by blast
qed


theorem missing_attribute_unhandled_witness:
  "has_required env_cleanup ''alice'' ''secret'' ''example.com'' ''example.com'' ''abc123''
   \<and> find_tag (provider page_welcome page_zones_no_value page_deleted
                  [landing_GET, login_POST ''alice'' ''secret'', zones_GET])
         ''img'' [(''name'', ''example.com''), (''alt'', ''delete'')]
       = Some (Tag ''img'' [(''alt'', ''delete''), (''name'', ''example.com'')] [])
   \<and> fst (get_zone_id (provider page_welcome page_zones_no_value page_deleted)
            [landing_GET, login_POST ''alice'' ''secret''] ''example.com'')
       = Inl (KeyError ''value'')
   \<and> fst (set_validation (provider page_welcome page_zones page_records_no_id)
            [landing_GET, login_POST ''alice'' ''secret''] ''example.com'' ''example.com'' ''abc123'')
       = Inl (KeyError ''id'')
   \<and> main (provider page_welcome page_zones_no_value page_deleted) env_cleanup =
        \<lparr>outcome = Unhandled (KeyError ''value''), stdout = [], stderr = [], slept = [],
         requests = [landing_GET, login_POST ''alice'' ''secret'', zones_GET]\<rparr>
   \<and> main (provider page_welcome page_zones page_records_no_id) env_auth =
        \<lparr>outcome = Unhandled (KeyError ''id''), stdout = [], stderr = [], slept = [],
         requests = [landing_GET, login_POST ''alice'' ''secret'', zones_GET,
                     create_POST ''12345'' ''example.com'' ''abc123'']\<rparr>"
proof -
  let ?s = "[landing_GET, login_POST ''alice'' ''secret'']"
  let ?nv = "provider page_welcome page_zones_no_value page_deleted"
  let ?ni = "provider page_welcome page_zones page_records_no_id"
  let ?t = "Tag ''img'' [(''alt'', ''delete''), (''name'', ''example.com'')] []"
  let ?rows = "findAll page_records_no_id ''tr'' [(''class'', ''dns_tr'')]"
  have rc: "has_required env_cleanup ''alice'' ''secret'' ''example.com'' ''example.com'' ''abc123''"
    by (simp add: has_required_def env_cleanup_def env_auth_def)
  have ra: "has_required env_auth ''alice'' ''secret'' ''example.com'' ''example.com'' ''abc123''"
    by (simp add: has_required_def env_auth_def)
  have c: "env_auth ''CERTBOT_AUTH_OUTPUT'' = None"
    by (simp add: env_auth_def)
  have l1: "\<not> has_element (?nv ?s) ''div'' ''id'' ''dns_err''" by code_simp
  have l2: "\<not> has_element (?ni ?s) ''div'' ''id'' ''dns_err''" by code_simp
  have f: "find_tag (?nv [landing_GET, login_POST ''alice'' ''secret'', zones_GET])
             ''img'' [(''name'', ''example.com''), (''alt'', ''delete'')] = Some ?t"
    by code_simp
  have a: "attr ?t ''value'' = None" by simp
  have z: "fst (get_zone_id ?ni ?s ''example.com'') = Inr ''12345''" by code_simp
  have p: "?rows = findAll (?ni [landing_GET, login_POST ''alice'' ''secret'', zones_GET,
                                create_POST ''12345'' ''example.com'' ''abc123''])
                     ''tr'' [(''class'', ''dns_tr'')]"
    by (simp add: provider_def create_POST_def)
  have k: "0 < length ?rows" by code_simp
  have m: "row_matches (''_acme-challenge.'' @ ''example.com'') (?rows ! 0)" by code_simp
  have b: "\<forall>j<0. \<not> row_matches (''_acme-challenge.'' @ ''example.com'') (?rows ! j)" by simp
  have i: "attr (?rows ! 0) ''id'' = None" by code_simp
  have "main ?nv env_cleanup =
        \<lparr>outcome = Unhandled (KeyError ''value''), stdout = [], stderr = [], slept = [],
         requests = [landing_GET, login_POST ''alice'' ''secret'', zones_GET]\<rparr>"
    using missing_attribute_unhandled
            [where srv = ?nv and env = env_cleanup and u = "''alice''" and p = "''secret''"
               and z = "''example.com''" and d = "''example.com''" and v = "''abc123''"
               and t = ?t]
          rc l1 f a
    by blast
  moreover have "main ?ni env_auth =
        \<lparr>outcome = Unhandled (KeyError ''id''), stdout = [], stderr = [], slept = [],
         requests = [landing_GET, login_POST ''alice'' ''secret'', zones_GET,
                     create_POST ''12345'' ''example.com'' ''abc123'']\<rparr>"
    using missing_attribute_unhandled
            [where srv = ?ni and env = env_auth and u = "''alice''" and p = "''secret''"
               and z = "''example.com''" and d = "''example.com''" and v = "''abc123''"
               and zone_id = "''12345''" and rows = ?rows and k = 0]
          ra l2 c z p k m b i
    by blast
  moreover have "fst (get_zone_id ?nv ?s ''example.com'') = Inl (KeyError ''value'')"
    using missing_attribute_unhandled
            [where srv = ?nv and s = ?s and zone = "''example.com''" and t = ?t]
          f a
    by simp
  moreover have "fst (set_validation ?ni ?s ''example.com'' ''example.com'' ''abc123'')
                   = Inl (KeyError ''id'')"
    using missing_attribute_unhandled
            [where srv = ?ni and s = ?s and zone = "''example.com''" and d = "''example.com''"
               and v = "''abc123''" and zone_id = "''12345''" and rows = ?rows and k = 0]
          z p k m b i
    by simp
  ultimately show ?thesis using rc f by blast
qed

subsection \<open>The order of the requests\<close>

lemma main_requests_cases:
  "requests (main srv env) = []
   \<or> (\<exists>u p. requests (main srv env) = [landing_GET, login_POST u p])
   \<or> (\<exists>u p. requests (main srv env) = [landing_GET, login_POST u p, zones_GET])
   \<or> (\<exists>u p zone_id record_id.
         requests (main srv env)
           = [landing_GET, login_POST u p, zones_GET, delete_POST zone_id record_id])
   \<or> (\<exists>u p zone_id d v.
         requests (main srv env)
           = [landing_GET, login_POST u p, zones_GET, create_POST zone_id d v])"
proof (cases "\<exists>k \<in> set required_vars. env k = None")
  case True
  then show ?thesis
    by (auto simp: required_vars_def main_def environ_get_def missing_def finish_def
             split: option.splits)
next
  case False
  then obtain u p z d v where r: "has_required env u p z d v"
    by (auto simp: required_vars_def has_required_def)
  show ?thesis
  proof (cases "has_element (srv [landing_GET, login_POST u p]) ''div'' ''id'' ''dns_err''")
    case True
    with r have "requests (main srv env) = [landing_GET, login_POST u p]"
      by (simp add: main_login_failed finish_def)
    then show ?thesis by blast
  next
    case l: False
    show ?thesis
    proof (cases "env ''CERTBOT_AUTH_OUTPUT''")
      case None
      from main_auth [where env = env and srv = srv, OF r l None]
      have "requests (main srv env) = snd (set_validation srv [landing_GET, login_POST u p] z d v)"
        by (simp add: finish_def split: prod.splits sum.splits)
      then have "requests (main srv env) = [landing_GET, login_POST u p, zones_GET]
                 \<or> (\<exists>zone_id. requests (main srv env)
                        = [landing_GET, login_POST u p, zones_GET, create_POST zone_id d v])"
        by (auto simp: set_validation_eq split: sum.splits)
      then show ?thesis by blast
    next
      case (Some rid)
      from main_cleanup [where env = env and srv = srv, OF r l Some]
      have "requests (main srv env)
              = snd (delete_validation srv [landing_GET, login_POST u p] z rid)"
        by (simp add: finish_def split: prod.splits sum.splits)
      then have "requests (main srv env) = [landing_GET, login_POST u p, zones_GET]
                 \<or> (\<exists>zone_id. requests (main srv env)
                        = [landing_GET, login_POST u p, zones_GET, delete_POST zone_id rid])"
        by (auto simp: delete_validation_eq split: sum.splits)
      then show ?thesis by blast
    qed
  qed
qed


text \<open>
  Claim C9. A run whose requests include a mutation POST (a POST to the index endpoint)
  has sent exactly four requests, in this order: the landing-page GET, the login POST,
  the management-page GET, that POST. Zone resolution is part of every create and every
  delete: started from any session, each operation first sends the management-page GET,
  \<^verbatim>\<open>get_zone_id\<close> reads the zone id out of the page that answers this very request, and
  the mutation POST, sent only when that succeeds, carries that id.
\<close>

theorem request_order:
  "(\<forall>form. POST ''https://dns.he.net/index.cgi'' form \<in> set (requests (main srv env)) \<longrightarrow>
      (\<exists>u p. requests (main srv env)
               = [landing_GET, login_POST u p, zones_GET,
                  POST ''https://dns.he.net/index.cgi'' form]))
   \<and> snd (set_validation srv s zone d v)
       = (case fst (get_zone_id srv s zone) of
            Inl error \<Rightarrow> s @ [zones_GET]
          | Inr zone_id \<Rightarrow> s @ [zones_GET, create_POST zone_id d v])
   \<and> snd (delete_validation srv s zone record_id)
       = (case fst (get_zone_id srv s zone) of
            Inl error \<Rightarrow> s @ [zones_GET]
          | Inr zone_id \<Rightarrow> s @ [zones_GET, delete_POST zone_id record_id])
   \<and> get_zone_id srv s zone
       = ((case find_tag (srv (s @ [zones_GET])) ''img'' [(''name'', zone), (''alt'', ''delete'')] of
             None \<Rightarrow> Inl (ValueError ''ERROR: Domain not found in account, check CERTBOT_DOMAIN'')
           | Some t \<Rightarrow> getitem t ''value''),
          s @ [zones_GET])"
proof -
  have order: "\<exists>u p. requests (main srv env)
               = [landing_GET, login_POST u p, zones_GET,
                  POST ''https://dns.he.net/index.cgi'' form]"
    if "POST ''https://dns.he.net/index.cgi'' form \<in> set (requests (main srv env))" for form
    using main_requests_cases [of srv env] that
    by (auto simp: landing_GET_def login_POST_def zones_GET_def delete_POST_def create_POST_def)
  have "snd (set_validation srv s zone d v)
       = (case fst (get_zone_id srv s zone) of
            Inl error \<Rightarrow> s @ [zones_GET]
          | Inr zone_id \<Rightarrow> s @ [zones_GET, create_POST zone_id d v])"
    by (simp add: set_validation_eq split: sum.splits)
  moreover have "snd (delete_validation srv s zone record_id)
       = (case fst (get_zone_id srv s zone) of
            Inl error \<Rightarrow> s @ [zones_GET]
          | Inr zone_id \<Rightarrow> s @ [zones_GET, delete_POST zone_id record_id])"
    by (simp add: delete_validation_eq split: sum.splits)
  ultimately show ?thesis using order get_zone_id_eq [of srv s zone] by blast
qed

theorem request_order_witness:
  "POST ''https://dns.he.net/index.cgi''
     [(''menu'', ''edit_zone''), (''hosted_dns_zoneid'', ''12345''),
      (''hosted_dns_recordid'', ''98765''), (''hosted_dns_editzone'', ''1''),
      (''hosted_dns_delrecord'', ''1''), (''hosted_dns_delconfirm'', ''delete'')]
     \<in> set (requests (main (provider page_welcome page_zones page_deleted) env_cleanup))
   \<and> (\<exists>u p. requests (main (provider page_welcome page_zones page_deleted) env_cleanup)
         = [landing_GET, login_POST u p, zones_GET,
            POST ''https://dns.he.net/index.cgi''
              [(''menu'', ''edit_zone''), (''hosted_dns_zoneid'', ''12345''),
               (''hosted_dns_recordid'', ''98765''), (''hosted_dns_editzone'', ''1''),
               (''hosted_dns_delrecord'', ''1''), (''hosted_dns_delconfirm'', ''delete'')]])"
proof -
  have m: "POST ''https://dns.he.net/index.cgi''
     [(''menu'', ''edit_zone''), (''hosted_dns_zoneid'', ''12345''),
      (''hosted_dns_recordid'', ''98765''), (''hosted_dns_editzone'', ''1''),
      (''hosted_dns_delrecord'', ''1''), (''hosted_dns_delconfirm'', ''delete'')]
     \<in> set (requests (main (provider page_welcome page_zones page_deleted) env_cleanup))"
    by code_simp
  with request_order [of "provider page_welcome page_zones page_deleted" env_cleanup]
  show ?thesis by blast
qed



subsection \<open>An unresolved zone in the cleanup phase\<close>

text \<open>
  When the zone is not in the account, \<^verbatim>\<open>get_zone_id\<close> raises \<^verbatim>\<open>ValueError\<close>. The
  create branch of \<^verbatim>\<open>main\<close> has a handler for it; the cleanup branch has a handler for
  \<^verbatim>\<open>RuntimeError\<close> only, so there the exception leaves \<^verbatim>\<open>main\<close>.
\<close>

lemma unhandled_in_cleanup:
  assumes "has_required env u p z d v"
    and "\<not> has_element (srv [landing_GET, login_POST u p]) ''div'' ''id'' ''dns_err''"
    and "env ''CERTBOT_AUTH_OUTPUT'' = Some record_id"
    and "find_tag (srv [landing_GET, login_POST u p, zones_GET]) ''img''
           [(''name'', z), (''alt'', ''delete'')] = None"
  shows "main srv env =
           finish (Unhandled (ValueError ''ERROR: Domain not found in account, check CERTBOT_DOMAIN''))
             [] [] [] [landing_GET, login_POST u p, zones_GET]"
  using main_cleanup [where env = env and srv = srv, OF assms(1-3)] assms(4)
  by (simp add: delete_validation_eq get_zone_id_eq)

lemma handled_in_auth:
  assumes "has_required env u p z d v"
    and "\<not> has_element (srv [landing_GET, login_POST u p]) ''div'' ''id'' ''dns_err''"
    and "env ''CERTBOT_AUTH_OUTPUT'' = None"
    and "find_tag (srv [landing_GET, login_POST u p, zones_GET]) ''img''
           [(''name'', z), (''alt'', ''delete'')] = None"
  shows "main srv env =
           finish (Exit 1) []
             [''ERROR: Domain not found in account, check CERTBOT_DOMAIN''] []
             [landing_GET, login_POST u p, zones_GET]"
  using main_auth [where env = env and srv = srv, OF assms(1-3)] assms(4)
  by (simp add: set_validation_eq get_zone_id_eq)

text \<open>
  Claim C1. The claim is that a cleanup run on a zone absent from the account reports the
  failure and returns 1 as the auth phase does, the exception being handled. On the
  scripted provider whose management page lists no zone, the cleanup run ends with the
  \<^verbatim>\<open>ValueError\<close> unhandled, \<^verbatim>\<open>main\<close> having printed nothing and returned nothing; the
  auth run against the same provider prints the message and returns 1.
\<close>

theorem cleanup_unresolved_zone_is_unhandled:
  "env_cleanup ''CERTBOT_AUTH_OUTPUT'' = Some ''98765''
   \<and> find_tag (provider page_welcome page_no_zones page_deleted
                  [landing_GET, login_POST ''alice'' ''secret'', zones_GET])
         ''img'' [(''name'', ''example.com''), (''alt'', ''delete'')] = None
   \<and> main (provider page_welcome page_no_zones page_deleted) env_cleanup =
        \<lparr>outcome =
           Unhandled (ValueError ''ERROR: Domain not found in account, check CERTBOT_DOMAIN''),
         stdout = [], stderr = [], slept = [],
         requests = [landing_GET, login_POST ''alice'' ''secret'', zones_GET]\<rparr>
   \<and> main (provider page_welcome page_no_zones page_deleted) env_auth =
        \<lparr>outcome = Exit 1, stdout = [],
         stderr = [''ERROR: Domain not found in account, check CERTBOT_DOMAIN''],
         slept = [],
         requests = [landing_GET, login_POST ''alice'' ''secret'', zones_GET]\<rparr>"
  by code_simp

subsection \<open>The propagation delay\<close>

text \<open>
  \<^verbatim>\<open>HE_PROPAGATION_SECONDS\<close> reaches \<^verbatim>\<open>sleep\<close> as the text found in the environment.
  (The wording of the \<^verbatim>\<open>TypeError\<close> depends on the interpreter; the model fixes one.)
\<close>

lemma sleep_on_text:
  assumes "has_required env u p z d v"
    and "\<not> has_element (srv [landing_GET, login_POST u p]) ''div'' ''id'' ''dns_err''"
    and "env ''CERTBOT_AUTH_OUTPUT'' = None"
    and "set_validation srv [landing_GET, login_POST u p] z d v = (Inr record_id, s')"
  shows "main srv env =
           (case env ''HE_PROPAGATION_SECONDS'' of
              None \<Rightarrow> finish (Exit 0) [record_id] [] [30] s'
            | Some t \<Rightarrow>
                finish (Unhandled (TypeError ''an integer is required (got type str)''))
                  [record_id] [] [] s')"
  using main_auth [where env = env and srv = srv, OF assms(1-3)] assms(4)
  by (simp split: option.splits)

text \<open>
  Claim C2. The claim is that an auth run with \<^verbatim>\<open>HE_PROPAGATION_SECONDS\<close> set prints the
  record id, sleeps for that many seconds and returns 0. With the variable set to
  \<^verbatim>\<open>60\<close> and a provider that accepts the creation, the run prints the record id
  \<^verbatim>\<open>98765\<close> and then ends with a \<^verbatim>\<open>TypeError\<close> unhandled, without having slept; with
  the variable unset, the same run sleeps 30 seconds and returns 0.
\<close>

theorem propagation_seconds_set_is_TypeError:
  "(env_auth(''HE_PROPAGATION_SECONDS'' \<mapsto> ''60'')) ''CERTBOT_AUTH_OUTPUT'' = None
   \<and> fst (set_validation (provider page_welcome page_zones page_records)
            [landing_GET, login_POST ''alice'' ''secret''] ''example.com'' ''example.com'' ''abc123'')
       = Inr ''98765''
   \<and> main (provider page_welcome page_zones page_records)
          (env_auth(''HE_PROPAGATION_SECONDS'' \<mapsto> ''60'')) =
        \<lparr>outcome = Unhandled (TypeError ''an integer is required (got type str)''),
         stdout = [''98765''], stderr = [], slept = [],
         requests = [landing_GET, login_POST ''alice'' ''secret'', zones_GET,
                     create_POST ''12345'' ''example.com'' ''abc123'']\<rparr>
   \<and> main (provider page_welcome page_zones page_records) env_auth =
        \<lparr>outcome = Exit 0, stdout = [''98765''], stderr = [], slept = [30],
         requests = [landing_GET, login_POST ''alice'' ''secret'', zones_GET,
                     create_POST ''12345'' ''example.com'' ''abc123'']\<rparr>"
  by code_simp

text \<open>
  Claim C7. The claim is that every run without \<^verbatim>\<open>CERTBOT_AUTH_OUTPUT\<close> whose creation
  succeeds prints the record id and exits with code 0. With \<^verbatim>\<open>HE_PROPAGATION_SECONDS\<close>
  set to \<^verbatim>\<open>5\<close>, the creation succeeds and the record id is printed, but the run does
  not exit with code 0.
\<close>

theorem auth_phase_success_does_not_exit_0:
  "(env_auth(''HE_PROPAGATION_SECONDS'' \<mapsto> ''5'')) ''CERTBOT_AUTH_OUTPUT'' = None
   \<and> fst (set_validation (provider page_welcome page_zones page_records)
            [landing_GET, login_POST ''alice'' ''secret''] ''example.com'' ''example.com'' ''abc123'')
       = Inr ''98765''
   \<and> stdout (main (provider page_welcome page_zones page_records)
                (env_auth(''HE_PROPAGATION_SECONDS'' \<mapsto> ''5''))) = [''98765'']
   \<and> outcome (main (provider page_welcome page_zones page_records)
                 (env_auth(''HE_PROPAGATION_SECONDS'' \<mapsto> ''5''))) \<noteq> Exit 0"
  by code_simp


end
